theory Spec2Isabelle
  imports Main
begin

section \<open>The bot runner: call intake and room provisioning\<close>

text \<open>
  A shallow embedding of \<^verbatim>\<open>runner.py\<close>: an HTTP service with one route,
  \<^verbatim>\<open>POST /twilio_start_bot\<close>, that provisions a Daily room and an access token
  for an incoming call, starts a bot process for it and answers with hold music.

  The Python performs effects: it awaits the room service and the token service, starts a
  process and prints to the console. In the model every such effect is an \<open>event\<close>,
  and a function returns its outcome together with the events it performed, in order.
  The collaborators (the REST helper, \<^verbatim>\<open>subprocess.Popen\<close>, the request's form
  parser) are parameters: each answers a call either by returning a value or by raising an
  exception. An exception raised in the Python is the \<open>Inl\<close> side of the outcome.
\<close>

subsection \<open>Configuration\<close>

definition MAX_SESSION_TIME :: int where
  "MAX_SESSION_TIME = 5 * 60"

definition REQUIRED_ENV_VARS :: "string list" where
  "REQUIRED_ENV_VARS = [''OPENAI_API_KEY'', ''DAILY_API_KEY'']"

subsection \<open>Data\<close>

text \<open>The room request built by \<^verbatim>\<open>create_daily_room\<close>, field by field.\<close>

record DailyRoomSipParams =
  display_name :: string
  video :: bool
  sip_mode :: string
  num_endpoints :: int

record DailyRoomProperties =
  sip :: DailyRoomSipParams

record DailyRoomParams =
  properties :: DailyRoomProperties

text \<open>
  The room the service answers with. The code reads \<^verbatim>\<open>room.url\<close> and
  \<^verbatim>\<open>room.config.sip_endpoint\<close> and nothing else.
\<close>

record DailyRoomConfig =
  sip_endpoint :: string

record DailyRoomObject =
  url :: string
  config :: DailyRoomConfig

text \<open>
  What the Python raises. \<open>HTTPException\<close> is the controlled error of the service,
  with its \<^verbatim>\<open>status_code\<close> and \<^verbatim>\<open>detail\<close>. \<open>AttributeError\<close> is what
  reading an attribute of \<^verbatim>\<open>None\<close> raises. \<open>Exception\<close> is an exception of a
  collaborator, with its message \<^verbatim>\<open>str(e)\<close>.
\<close>

datatype error =
  HTTPException int string
| AttributeError string
| Exception string

text \<open>
  The answer of a collaborator to one call. Signals that are not instances of
  \<^verbatim>\<open>Exception\<close> (a keyboard interrupt, a cancelled task) end the process or the
  task and are outside the model.
\<close>

datatype 'a reply = Returns 'a | Raises string

text \<open>
  The effects, as events. \<open>Launch\<close> is the call of \<^verbatim>\<open>subprocess.Popen\<close> with its
  argument list, \<^verbatim>\<open>shell\<close>, \<^verbatim>\<open>bufsize\<close> and \<^verbatim>\<open>cwd\<close>.
\<close>

datatype event =
  Printed string
| RoomCall DailyRoomParams
| TokenCall string int
| Launch "string list" bool int string

text \<open>
  The collaborators of a running service: \<^verbatim>\<open>daily_helpers["rest"]\<close> with its two
  methods, \<^verbatim>\<open>subprocess.Popen\<close>, and the directory of the module's file. A room or
  a token is an \<open>option\<close>: Python's \<^verbatim>\<open>None\<close> is \<open>None\<close>.
\<close>

record services =
  create_room :: "DailyRoomParams \<Rightarrow> DailyRoomObject option reply"
  get_token :: "string \<Rightarrow> int \<Rightarrow> string option reply"
  Popen :: "string list \<Rightarrow> bool \<Rightarrow> int \<Rightarrow> string \<Rightarrow> unit reply"
  file_dir :: string

subsection \<open>Python's truth values and string formatting\<close>

text \<open>\<^verbatim>\<open>not room\<close>: a room object is true, \<^verbatim>\<open>None\<close> is false.\<close>

definition not_room :: "DailyRoomObject option \<Rightarrow> bool" where
  "not_room room = (case room of None \<Rightarrow> True | Some r \<Rightarrow> False)"

text \<open>\<^verbatim>\<open>not s\<close> for a string or \<^verbatim>\<open>None\<close>: the empty string and \<^verbatim>\<open>None\<close> are false.\<close>

definition not_str :: "string option \<Rightarrow> bool" where
  "not_str s = (case s of None \<Rightarrow> True | Some t \<Rightarrow> t = [])"

text \<open>A string or \<^verbatim>\<open>None\<close> inside an f-string or under \<^verbatim>\<open>%s\<close>.\<close>

definition fmt :: "string option \<Rightarrow> string" where
  "fmt s = (case s of None \<Rightarrow> ''None'' | Some t \<Rightarrow> t)"

text \<open>A text between single quotes, and between double quotes.\<close>

definition squoted :: "string \<Rightarrow> string" where
  "squoted s = [CHR 0x27] @ s @ [CHR 0x27]"

definition dquoted :: "string \<Rightarrow> string" where
  "dquoted s = [CHR 0x22] @ s @ [CHR 0x22]"

subsection \<open>Startup\<close>

text \<open>
  The check of the \<^verbatim>\<open>__main__\<close> block: a loop over the required variables that
  raises at the first one that is not a key of \<^verbatim>\<open>os.environ\<close>.
\<close>

fun check_env_vars :: "string list \<Rightarrow> (string \<rightharpoonup> string) \<Rightarrow> error + unit" where
  "check_env_vars [] environ = Inr ()"
| "check_env_vars (env_var # rest) environ =
     (if environ env_var = None
      then Inl (Exception (''Missing environment variable: '' @ env_var @ ''.''))
      else check_env_vars rest environ)"

definition main_check :: "(string \<rightharpoonup> string) \<Rightarrow> error + unit" where
  "main_check environ = check_env_vars REQUIRED_ENV_VARS environ"

subsection \<open>The voice response\<close>

text \<open>
  The part of the Twilio helper library the handler uses: a voice response is an element
  tree. An element has a name, attributes, a text and nested verbs; \<open>VoiceResponse\<close> is
  the empty \<^verbatim>\<open>Response\<close> element, \<open>play\<close> nests a \<^verbatim>\<open>Play\<close> element whose text is
  the url and whose \<^verbatim>\<open>loop\<close> attribute is the number, printed in decimal, and
  \<open>str_response\<close> is \<^verbatim>\<open>str(resp)\<close>: the declaration followed by the tree, written
  as ElementTree writes it.
\<close>

datatype twiml = TwiML string "(string \<times> string) list" string "twiml list"

definition digit :: "nat \<Rightarrow> char" where
  "digit n = ''0123456789'' ! n"

fun str_nat :: "nat \<Rightarrow> string" where
  "str_nat n = (if n < 10 then [digit n] else str_nat (n div 10) @ [digit (n mod 10)])"

declare str_nat.simps [simp del]

definition str_int :: "int \<Rightarrow> string" where
  "str_int i = (if i < 0 then ''-'' @ str_nat (nat (- i)) else str_nat (nat i))"

fun escape_cdata :: "string \<Rightarrow> string" where
  "escape_cdata [] = []"
| "escape_cdata (c # cs) =
     (if c = CHR ''&'' then ''&amp;''
      else if c = CHR ''<'' then ''&lt;''
      else if c = CHR ''>'' then ''&gt;''
      else [c]) @ escape_cdata cs"

fun escape_attrib :: "string \<Rightarrow> string" where
  "escape_attrib [] = []"
| "escape_attrib (c # cs) =
     (if c = CHR ''&'' then ''&amp;''
      else if c = CHR ''<'' then ''&lt;''
      else if c = CHR ''>'' then ''&gt;''
      else if c = CHR 0x22 then ''&quot;''
      else if c = CHR 0x0D then ''&#13;''
      else if c = CHR 0x0A then ''&#10;''
      else if c = CHR 0x09 then ''&#09;''
      else [c]) @ escape_attrib cs"

definition attrib_str :: "string \<times> string \<Rightarrow> string" where
  "attrib_str kv = '' '' @ fst kv @ ''='' @ dquoted (escape_attrib (snd kv))"

fun to_xml :: "twiml \<Rightarrow> string" where
  "to_xml (TwiML name attrs val verbs) =
     (if val = [] \<and> verbs = []
      then ''<'' @ name @ concat (map attrib_str attrs) @ '' />''
      else ''<'' @ name @ concat (map attrib_str attrs) @ ''>'' @ escape_cdata val
           @ concat (map to_xml verbs) @ ''</'' @ name @ ''>'')"

definition xml_declaration :: string where
  "xml_declaration =
     ''<?xml version='' @ dquoted ''1.0'' @ '' encoding='' @ dquoted ''UTF-8'' @ ''?>''"

definition str_response :: "twiml \<Rightarrow> string" where
  "str_response resp = xml_declaration @ to_xml resp"

definition VoiceResponse :: twiml where
  "VoiceResponse = TwiML ''Response'' [] [] []"

fun play :: "twiml \<Rightarrow> string \<Rightarrow> int \<Rightarrow> twiml" where
  "play (TwiML name attrs val verbs) u loop =
     TwiML name attrs val (verbs @ [TwiML ''Play'' [(''loop'', str_int loop)] u []])"

subsection \<open>The room provisioner\<close>

text \<open>
  The launch command of the bot, the f-string of \<^verbatim>\<open>create_daily_room\<close>.
\<close>

definition bot_proc :: "string \<Rightarrow> string \<Rightarrow> string \<Rightarrow> string \<Rightarrow> string" where
  "bot_proc room_url token callId endpoint =
     ''python3 -m bot_twilio -u '' @ room_url @ '' -t '' @ token @ '' -i '' @ callId
     @ '' -s '' @ endpoint"

text \<open>
  The room request of \<^verbatim>\<open>create_daily_room\<close>: the same for every call.
\<close>

definition room_params :: DailyRoomParams where
  "room_params =
     \<lparr>properties = \<lparr>sip = \<lparr>display_name = ''dialin-user'', video = False,
        sip_mode = ''dial-in'', num_endpoints = 1\<rparr>\<rparr>\<rparr>"

text \<open>
  \<^verbatim>\<open>create_daily_room(callId)\<close>, statement by statement. The room service is called
  first. The next statement prints \<^verbatim>\<open>room.url\<close>, which raises an
  \<^verbatim>\<open>AttributeError\<close> when the room is \<^verbatim>\<open>None\<close>. Then the token service is
  called with the room's url and \<open>MAX_SESSION_TIME\<close>. Only then comes the check
  \<^verbatim>\<open>if not room or not token\<close>, and after it the launch, whose exception is turned
  into an \<open>HTTPException\<close>. An exception of the room service or of the token service is not
  caught.
\<close>

definition create_daily_room ::
  "services \<Rightarrow> string option \<Rightarrow> (error + DailyRoomObject) \<times> event list" where
  "create_daily_room sv callId =
     (let params = room_params;
          tr1 = [Printed ''Creating new room...'', RoomCall params]
      in case create_room sv params of
           Raises m \<Rightarrow> (Inl (Exception m), tr1)
         | Returns room \<Rightarrow>
             (case room of
                None \<Rightarrow>
                  (Inl (AttributeError (squoted ''NoneType'' @ '' object has no attribute ''
                                        @ squoted ''url'')), tr1)
              | Some r \<Rightarrow>
                  (let tr2 = tr1 @
                         [Printed (''Daily room: '' @ url r @ '' '' @ sip_endpoint (config r)),
                          TokenCall (url r) MAX_SESSION_TIME]
                   in case get_token sv (url r) MAX_SESSION_TIME of
                        Raises m \<Rightarrow> (Inl (Exception m), tr2)
                      | Returns token \<Rightarrow>
                          if not_room room \<or> not_str token
                          then (Inl (HTTPException 500 ''Failed to get room or token''), tr2)
                          else
                            (let cmd = bot_proc (url r) (fmt token) (fmt callId)
                                         (sip_endpoint (config r));
                                 tr3 = tr2 @ [Launch [cmd] True 1 (file_dir sv)]
                             in case Popen sv [cmd] True 1 (file_dir sv) of
                                  Raises m \<Rightarrow>
                                    (Inl (HTTPException 500
                                       (''Failed to start subprocess: '' @ m)), tr3)
                                | Returns u \<Rightarrow> (Inr r, tr3)))))"

subsection \<open>The call intake endpoint\<close>

definition HOLD_MUSIC_URL :: string where
  "HOLD_MUSIC_URL =
     ''http://com.twilio.sounds.music.s3.amazonaws.com/MARKOVICHAMP-Borghestral.mp3''"

text \<open>
  \<^verbatim>\<open>twilio_start_bot(request)\<close>. The form is the answer of
  \<^verbatim>\<open>request.form()\<close>, made a dictionary from field names to texts; when reading it
  raises, the dictionary is empty. \<^verbatim>\<open>data.get("CallSid")\<close> is \<^verbatim>\<open>None\<close> for a
  missing key. The handler returns the text of the voice response; what
  \<^verbatim>\<open>create_daily_room\<close> raises propagates.
\<close>

definition twilio_start_bot ::
  "services \<Rightarrow> (string \<rightharpoonup> string) reply \<Rightarrow> (error + string) \<times> event list" where
  "twilio_start_bot sv form =
     (let tr0 = [Printed ''POST /twilio_start_bot''];
          data = (case form of Returns form_data \<Rightarrow> form_data | Raises m \<Rightarrow> Map.empty);
          callId = data ''CallSid''
      in if not_str callId
         then (Inl (HTTPException 500 (''Missing '' @ squoted ''CallSid'' @ '' in request'')), tr0)
         else
           (let tr1 = tr0 @ [Printed (''CallId: '' @ fmt callId)]
            in case create_daily_room sv callId of
                 (Inl e, tr) \<Rightarrow> (Inl e, tr1 @ tr)
               | (Inr room, tr) \<Rightarrow>
                   (let resp = play VoiceResponse HOLD_MUSIC_URL 10
                    in (Inr (str_response resp),
                        tr1 @ tr @ [Printed ''Put Twilio on hold...'']))))"

text \<open>
  The route: \<^verbatim>\<open>@app.post("/twilio_start_bot", response_class=PlainTextResponse)\<close>.
  A text the handler returns is sent as a plain-text response with status 200, the
  status of a route that names no other; an exception of the handler stays an exception.
\<close>

datatype response = PlainTextResponse int string

definition post_twilio_start_bot ::
  "services \<Rightarrow> (string \<rightharpoonup> string) reply \<Rightarrow> (error + response) \<times> event list" where
  "post_twilio_start_bot sv form =
     (case twilio_start_bot sv form of
        (Inl e, tr) \<Rightarrow> (Inl e, tr)
      | (Inr content, tr) \<Rightarrow> (Inr (PlainTextResponse 200 content), tr))"

text \<open>The calls of a run, read off its events.\<close>

fun room_calls :: "event list \<Rightarrow> DailyRoomParams list" where
  "room_calls [] = []"
| "room_calls (RoomCall p # es) = p # room_calls es"
| "room_calls (e # es) = room_calls es"

fun token_calls :: "event list \<Rightarrow> (string \<times> int) list" where
  "token_calls [] = []"
| "token_calls (TokenCall u t # es) = (u, t) # token_calls es"
| "token_calls (e # es) = token_calls es"

fun launches :: "event list \<Rightarrow> (string list \<times> bool \<times> int \<times> string) list" where
  "launches [] = []"
| "launches (Launch args sh b d # es) = (args, sh, b, d) # launches es"
| "launches (e # es) = launches es"

subsection \<open>The shell and scenarios\<close>





text \<open>
  Concrete rooms, and collaborators that give the same answer to every call: the inputs of
  the scenarios the properties are tried on.
\<close>

definition room_abc :: DailyRoomObject where
  "room_abc =
     \<lparr>url = ''https://x.daily.co/abc'', config = \<lparr>sip_endpoint = ''sip:abc@x.daily.co''\<rparr>\<rparr>"

definition room_xyz :: DailyRoomObject where
  "room_xyz =
     \<lparr>url = ''https://y.daily.co/xyz'', config = \<lparr>sip_endpoint = ''sip:xyz@y.daily.co''\<rparr>\<rparr>"

definition fixed_services ::
  "DailyRoomObject option reply \<Rightarrow> string option reply \<Rightarrow> unit reply \<Rightarrow> services" where
  "fixed_services room token launch =
     \<lparr>create_room = \<lambda>p. room, get_token = \<lambda>u t. token, Popen = \<lambda>a s b d. launch,
      file_dir = ''/srv/bot''\<rparr>"

text \<open>
  The collaborators of the scenarios: both services answer and the launch succeeds; the
  room service answers \<^verbatim>\<open>None\<close>; the token service answers the empty string;
  both services answer with another room and another token.
\<close>

abbreviation services_ok :: services where
  "services_ok \<equiv> fixed_services (Returns (Some room_abc)) (Returns (Some ''tok456'')) (Returns ())"

abbreviation services_no_room :: services where
  "services_no_room \<equiv> fixed_services (Returns None) (Returns (Some ''tok456'')) (Returns ())"

abbreviation services_no_token :: services where
  "services_no_token \<equiv> fixed_services (Returns (Some room_abc)) (Returns (Some [])) (Returns ())"

abbreviation services_other :: services where
  "services_other \<equiv> fixed_services (Returns (Some room_xyz)) (Returns (Some ''tok789'')) (Returns ())"

section \<open>Properties\<close>

subsection \<open>Auxiliary facts\<close>

lemma MAX_SESSION_TIME_300: "MAX_SESSION_TIME = 300"
  by (simp add: MAX_SESSION_TIME_def)

lemma create_daily_room_success:
  assumes "create_daily_room sv callId = (Inr room, tr)"
  shows "\<exists>token. create_room sv room_params = Returns (Some room)
           \<and> get_token sv (url room) MAX_SESSION_TIME = Returns (Some token) \<and> token \<noteq> []
           \<and> Popen sv [bot_proc (url room) token (fmt callId) (sip_endpoint (config room))]
                 True 1 (file_dir sv) = Returns ()
           \<and> tr = [Printed ''Creating new room...'', RoomCall room_params,
                   Printed (''Daily room: '' @ url room @ '' '' @ sip_endpoint (config room)),
                   TokenCall (url room) MAX_SESSION_TIME,
                   Launch [bot_proc (url room) token (fmt callId) (sip_endpoint (config room))]
                     True 1 (file_dir sv)]"
  using assms
  by (auto simp: create_daily_room_def Let_def not_room_def not_str_def fmt_def
           split: reply.splits option.splits if_splits)

lemma create_daily_room_no_room:
  assumes "create_room sv room_params = Returns None"
  shows "create_daily_room sv callId =
           (Inl (AttributeError (squoted ''NoneType'' @ '' object has no attribute '' @ squoted ''url'')),
            [Printed ''Creating new room...'', RoomCall room_params])"
  using assms by (simp add: create_daily_room_def Let_def)

lemma create_daily_room_falsy_token:
  assumes "create_room sv room_params = Returns (Some r)"
    and "get_token sv (url r) MAX_SESSION_TIME = Returns token"
    and "not_str token"
  shows "create_daily_room sv callId =
           (Inl (HTTPException 500 ''Failed to get room or token''),
            [Printed ''Creating new room...'', RoomCall room_params,
             Printed (''Daily room: '' @ url r @ '' '' @ sip_endpoint (config r)),
             TokenCall (url r) MAX_SESSION_TIME])"
  using assms by (simp add: create_daily_room_def Let_def)

lemma create_daily_room_controlled:
  assumes "fst (create_daily_room sv callId) = Inl (HTTPException 500 ''Failed to get room or token'')"
  shows "\<exists>r token. create_room sv room_params = Returns (Some r)
           \<and> get_token sv (url r) MAX_SESSION_TIME = Returns token \<and> not_str token"
  using assms
  by (auto simp: create_daily_room_def Let_def not_room_def
           split: reply.splits option.splits if_splits)

lemma create_daily_room_fixed:
  "create_daily_room (fixed_services (Returns (Some r)) (Returns (Some (t # ts))) (Returns ())) callId =
     (Inr r,
      [Printed ''Creating new room...'', RoomCall room_params,
       Printed (''Daily room: '' @ url r @ '' '' @ sip_endpoint (config r)),
       TokenCall (url r) MAX_SESSION_TIME,
       Launch [bot_proc (url r) (t # ts) (fmt callId) (sip_endpoint (config r))] True 1 ''/srv/bot''])"
  by (simp add: create_daily_room_def fixed_services_def Let_def not_room_def not_str_def fmt_def)

lemma hold_response:
  "str_response (play VoiceResponse HOLD_MUSIC_URL 10) =
     ''<?xml version='' @ dquoted ''1.0'' @ '' encoding='' @ dquoted ''UTF-8'' @ ''?>''
     @ ''<Response><Play loop='' @ dquoted ''10'' @ ''>''
     @ ''http://com.twilio.sounds.music.s3.amazonaws.com/MARKOVICHAMP-Borghestral.mp3''
     @ ''</Play></Response>''"
  by (simp add: str_response_def VoiceResponse_def HOLD_MUSIC_URL_def xml_declaration_def
        attrib_str_def dquoted_def str_int_def str_nat.simps digit_def)

lemma hold_tree:
  "play VoiceResponse HOLD_MUSIC_URL 10 =
     TwiML ''Response'' [] [] [TwiML ''Play'' [(''loop'', ''10'')]
       ''http://com.twilio.sounds.music.s3.amazonaws.com/MARKOVICHAMP-Borghestral.mp3'' []]"
  by (simp add: VoiceResponse_def HOLD_MUSIC_URL_def str_int_def str_nat.simps digit_def)

lemma twilio_start_bot_rejects:
  assumes "not_str (data ''CallSid'')"
  shows "twilio_start_bot sv (Returns data) =
           (Inl (HTTPException 500 (''Missing '' @ squoted ''CallSid'' @ '' in request'')),
            [Printed ''POST /twilio_start_bot''])"
  using assms by (simp add: twilio_start_bot_def Let_def)

lemma twilio_start_bot_unparsed:
  "twilio_start_bot sv (Raises m) =
     (Inl (HTTPException 500 (''Missing '' @ squoted ''CallSid'' @ '' in request'')),
      [Printed ''POST /twilio_start_bot''])"
  by (simp add: twilio_start_bot_def Let_def not_str_def)

lemma twilio_start_bot_provisions:
  assumes "data ''CallSid'' = Some c" and "c \<noteq> []"
  shows "twilio_start_bot sv (Returns data) =
           (case create_daily_room sv (Some c) of
              (Inl e, tr) \<Rightarrow>
                (Inl e, [Printed ''POST /twilio_start_bot'', Printed (''CallId: '' @ c)] @ tr)
            | (Inr room, tr) \<Rightarrow>
                (Inr (str_response (play VoiceResponse HOLD_MUSIC_URL 10)),
                 [Printed ''POST /twilio_start_bot'', Printed (''CallId: '' @ c)] @ tr
                 @ [Printed ''Put Twilio on hold...'']))"
  using assms
  by (simp add: twilio_start_bot_def Let_def not_str_def fmt_def split: prod.splits sum.splits)

lemma twilio_start_bot_body:
  assumes "fst (twilio_start_bot sv form) = Inr content"
  shows "content = str_response (play VoiceResponse HOLD_MUSIC_URL 10)"
  using assms
  by (auto simp: twilio_start_bot_def Let_def split: if_splits prod.splits sum.splits)

lemma check_env_vars_missing:
  assumes "v \<in> set vs" and "environ v = None"
  shows "\<exists>w. w \<in> set vs \<and> environ w = None
           \<and> check_env_vars vs environ =
               Inl (Exception (''Missing environment variable: '' @ w @ ''.''))"
  using assms
proof (induction vs)
  case Nil
  then show ?case by simp
next
  case (Cons x xs)
  show ?case
  proof (cases "environ x = None")
    case True
    then have "check_env_vars (x # xs) environ =
        Inl (Exception (''Missing environment variable: '' @ x @ ''.''))"
      by simp
    with True show ?thesis by (intro exI [of _ x]) simp
  next
    case False
    with Cons.prems have "v \<in> set xs" by auto
    from Cons.IH [OF this Cons.prems(2)] obtain w where
      w: "w \<in> set xs" "environ w = None"
        "check_env_vars xs environ = Inl (Exception (''Missing environment variable: '' @ w @ ''.''))"
      by blast
    with False show ?thesis by (intro exI [of _ w]) auto
  qed
qed

lemma check_env_vars_only:
  assumes "v \<in> set vs" and "environ v = None"
    and "\<forall>u \<in> set vs. environ u = None \<longrightarrow> u = v"
  shows "check_env_vars vs environ =
           Inl (Exception (''Missing environment variable: '' @ v @ ''.''))"
proof -
  from assms(1,2) check_env_vars_missing [of v vs environ] obtain w where
    "w \<in> set vs" "environ w = None"
    "check_env_vars vs environ = Inl (Exception (''Missing environment variable: '' @ w @ ''.''))"
    by blast
  with assms(3) show ?thesis by auto
qed

lemma create_daily_room_ok:
  "create_daily_room services_ok callId =
     (Inr room_abc,
      [Printed ''Creating new room...'', RoomCall room_params,
       Printed ''Daily room: https://x.daily.co/abc sip:abc@x.daily.co'',
       TokenCall ''https://x.daily.co/abc'' 300,
       Launch [''python3 -m bot_twilio -u https://x.daily.co/abc -t tok456 -i '' @ fmt callId
                 @ '' -s sip:abc@x.daily.co''] True 1 ''/srv/bot''])"
  by (simp add: create_daily_room_fixed room_abc_def MAX_SESSION_TIME_300 bot_proc_def)

lemma post_twilio_start_bot_response:
  assumes "fst (post_twilio_start_bot sv form) = Inr r"
  shows "r = PlainTextResponse 200 (str_response (play VoiceResponse HOLD_MUSIC_URL 10))"
proof -
  obtain out tr where run: "twilio_start_bot sv form = (out, tr)"
    by (cases "twilio_start_bot sv form")
  show ?thesis
  proof (cases out)
    case (Inl e)
    with run assms show ?thesis by (simp add: post_twilio_start_bot_def)
  next
    case (Inr content)
    with run have "fst (twilio_start_bot sv form) = Inr content" by simp
    then have "content = str_response (play VoiceResponse HOLD_MUSIC_URL 10)"
      by (rule twilio_start_bot_body)
    with run Inr assms show ?thesis by (simp add: post_twilio_start_bot_def)
  qed
qed

text \<open>
  A run of the handler with a call identifier is the two prints of the handler, the run of
  the provisioner and, when that succeeds, the last print: the calls of the handler are
  the calls of the provisioner.
\<close>

lemma post_twilio_start_bot_ok:
  assumes "data ''CallSid'' = Some c" and "c \<noteq> []"
    and "create_daily_room sv (Some c) = (Inr room, tr)"
  shows "post_twilio_start_bot sv (Returns data) =
           (Inr (PlainTextResponse 200 (str_response (play VoiceResponse HOLD_MUSIC_URL 10))),
            [Printed ''POST /twilio_start_bot'', Printed (''CallId: '' @ c)] @ tr
            @ [Printed ''Put Twilio on hold...''])"
  using assms by (simp add: post_twilio_start_bot_def twilio_start_bot_provisions)

text \<open>
  The token half of the check before the launch: when the room service answers with a
  room and the token service with \<^verbatim>\<open>None\<close> or the empty string, the provisioner
  raises the \<open>HTTPException\<close> with status 500 and nothing is launched.
\<close>

lemma falsy_token_fails_before_launch:
  assumes "create_room sv room_params = Returns (Some r)"
    and "get_token sv (url r) MAX_SESSION_TIME = Returns token"
    and "not_str token"
  shows "fst (create_daily_room sv callId) =
           Inl (HTTPException 500 ''Failed to get room or token'')
         \<and> launches (snd (create_daily_room sv callId)) = []"
  using create_daily_room_falsy_token [OF assms] by simp

text \<open>
  A successful run of the route: the form had a call identifier, the provisioner returned
  a room for it, and the events are those of the provisioner between the prints of the
  handler.
\<close>

lemma post_twilio_start_bot_success:
  assumes "fst (post_twilio_start_bot sv form) = Inr r"
  shows "\<exists>data c room tr. form = Returns data \<and> data ''CallSid'' = Some c \<and> c \<noteq> []
           \<and> create_daily_room sv (Some c) = (Inr room, tr)
           \<and> snd (post_twilio_start_bot sv form) =
               [Printed ''POST /twilio_start_bot'', Printed (''CallId: '' @ c)] @ tr
               @ [Printed ''Put Twilio on hold...'']"
  using assms
  by (auto simp: post_twilio_start_bot_def twilio_start_bot_def Let_def not_str_def fmt_def
           split: reply.splits option.splits if_splits prod.splits sum.splits)

lemma post_twilio_start_bot_served:
  "fst (post_twilio_start_bot services_ok (Returns [''CallSid'' \<mapsto> ''CA123''])) =
     Inr (PlainTextResponse 200 (str_response (play VoiceResponse HOLD_MUSIC_URL 10)))"
  by (simp add: post_twilio_start_bot_def twilio_start_bot_provisions create_daily_room_fixed)










subsection \<open>Startup\<close>

text \<open>
  C8: At startup, for every required environment variable (the room-service API key and
  the AI-backend API key), if that variable is absent from the environment the process
  refuses to start and reports exactly which variable is missing.

  The check raises, so the process does not start, and its message names a required
  variable that is absent: the first absent one in the order of \<open>REQUIRED_ENV_VARS\<close>,
  which is the variable itself when no other required variable is absent.
\<close>

theorem missing_env_var_refuses_start:
  assumes "v \<in> set REQUIRED_ENV_VARS" and "environ v = None"
  shows "(\<exists>w. w \<in> set REQUIRED_ENV_VARS \<and> environ w = None
            \<and> main_check environ =
                Inl (Exception (''Missing environment variable: '' @ w @ ''.'')))
         \<and> ((\<forall>u \<in> set REQUIRED_ENV_VARS. environ u = None \<longrightarrow> u = v) \<longrightarrow>
              main_check environ =
                Inl (Exception (''Missing environment variable: '' @ v @ ''.'')))"
proof (intro conjI impI)
  show "\<exists>w. w \<in> set REQUIRED_ENV_VARS \<and> environ w = None
          \<and> main_check environ =
              Inl (Exception (''Missing environment variable: '' @ w @ ''.''))"
    unfolding main_check_def using assms by (rule check_env_vars_missing)
next
  assume "\<forall>u \<in> set REQUIRED_ENV_VARS. environ u = None \<longrightarrow> u = v"
  with assms show "main_check environ =
      Inl (Exception (''Missing environment variable: '' @ v @ ''.''))"
    unfolding main_check_def by (rule check_env_vars_only)
qed

text \<open>An environment with the AI-backend key and without the room-service key.\<close>

theorem missing_env_var_refuses_start_witness:
  "''DAILY_API_KEY'' \<in> set REQUIRED_ENV_VARS
   \<and> [''OPENAI_API_KEY'' \<mapsto> ''sk-1''] ''DAILY_API_KEY'' = None
   \<and> main_check [''OPENAI_API_KEY'' \<mapsto> ''sk-1''] =
       Inl (Exception ''Missing environment variable: DAILY_API_KEY.'')"
proof -
  have req: "''DAILY_API_KEY'' \<in> set REQUIRED_ENV_VARS"
    by (simp add: REQUIRED_ENV_VARS_def)
  have absent: "[''OPENAI_API_KEY'' \<mapsto> ''sk-1''] ''DAILY_API_KEY'' = None"
    by simp
  have only: "\<forall>u \<in> set REQUIRED_ENV_VARS.
      [''OPENAI_API_KEY'' \<mapsto> ''sk-1''] u = None \<longrightarrow> u = ''DAILY_API_KEY''"
    by (simp add: REQUIRED_ENV_VARS_def)
  from missing_env_var_refuses_start
      [where v = "''DAILY_API_KEY''" and environ = "[''OPENAI_API_KEY'' \<mapsto> ''sk-1'']",
       OF req absent] only
  have "main_check [''OPENAI_API_KEY'' \<mapsto> ''sk-1''] =
      Inl (Exception (''Missing environment variable: '' @ ''DAILY_API_KEY'' @ ''.''))"
    by blast
  with req absent show ?thesis by simp
qed

subsection \<open>Requests without a call identifier\<close>

text \<open>
  C1: For every request to POST /twilio_start_bot whose parsed form data lacks a non-empty
  'CallSid' field, the handler returns a server-error (500) response and performs zero
  calls to the room service and zero calls to the token service (no provisioning side
  effects occur).

  The field is absent or is the empty string; the handler raises the \<open>HTTPException\<close>
  with status 500, and the events of the run hold no room call, no token call and no
  launch.
\<close>

theorem missing_call_id_rejected:
  assumes "data ''CallSid'' = None \<or> data ''CallSid'' = Some []"
  shows "fst (post_twilio_start_bot sv (Returns data)) =
           Inl (HTTPException 500 (''Missing '' @ squoted ''CallSid'' @ '' in request''))
         \<and> room_calls (snd (post_twilio_start_bot sv (Returns data))) = []
         \<and> token_calls (snd (post_twilio_start_bot sv (Returns data))) = []
         \<and> launches (snd (post_twilio_start_bot sv (Returns data))) = []"
proof -
  from assms have "not_str (data ''CallSid'')"
    by (auto simp: not_str_def)
  then have "post_twilio_start_bot sv (Returns data) =
      (Inl (HTTPException 500 (''Missing '' @ squoted ''CallSid'' @ '' in request'')),
       [Printed ''POST /twilio_start_bot''])"
    by (simp add: post_twilio_start_bot_def twilio_start_bot_rejects)
  then show ?thesis by simp
qed

text \<open>
  A form with another field only, and a form whose \<^verbatim>\<open>CallSid\<close> is the empty string,
  sent to a service whose collaborators would all succeed.
\<close>

theorem missing_call_id_rejected_witness:
  "fst (post_twilio_start_bot services_ok (Returns [''From'' \<mapsto> ''+15550100''])) =
     Inl (HTTPException 500 (''Missing '' @ squoted ''CallSid'' @ '' in request''))
   \<and> room_calls (snd (post_twilio_start_bot services_ok
        (Returns [''From'' \<mapsto> ''+15550100'']))) = []
   \<and> token_calls (snd (post_twilio_start_bot services_ok
        (Returns [''From'' \<mapsto> ''+15550100'']))) = []
   \<and> fst (post_twilio_start_bot services_ok (Returns [''CallSid'' \<mapsto> ''''])) =
     Inl (HTTPException 500 (''Missing '' @ squoted ''CallSid'' @ '' in request''))"
proof -
  have absent: "[''From'' \<mapsto> ''+15550100''] ''CallSid'' = None
      \<or> [''From'' \<mapsto> ''+15550100''] ''CallSid'' = Some []"
    by simp
  have empty: "[''CallSid'' \<mapsto> ''''] ''CallSid'' = None
      \<or> [''CallSid'' \<mapsto> ''''] ''CallSid'' = Some []"
    by simp
  show ?thesis
    using missing_call_id_rejected [where data = "[''From'' \<mapsto> ''+15550100'']", OF absent]
      missing_call_id_rejected [where data = "[''CallSid'' \<mapsto> []]", OF empty]
    by blast
qed

text \<open>
  C7: For every request whose body cannot be parsed as form data, the handler treats it as
  an empty field set rather than failing on the parse error itself; the request is then
  rejected only by the missing-call-identifier check (and an empty-string CallSid is
  rejected the same as an absent one).

  A form whose reading raises has the run of the empty form: the exception of the reading
  is not the outcome, the outcome is the \<open>HTTPException\<close> of the missing identifier after
  the first print. A form with the empty string as \<^verbatim>\<open>CallSid\<close> has the run of the
  same form without the field.
\<close>

theorem unparsed_form_is_empty_form:
  "post_twilio_start_bot sv (Raises m) = post_twilio_start_bot sv (Returns Map.empty)
   \<and> post_twilio_start_bot sv (Raises m) =
       (Inl (HTTPException 500 (''Missing '' @ squoted ''CallSid'' @ '' in request'')),
        [Printed ''POST /twilio_start_bot''])
   \<and> post_twilio_start_bot sv (Returns (data(''CallSid'' \<mapsto> []))) =
       post_twilio_start_bot sv (Returns (data(''CallSid'' := None)))"
  by (simp add: post_twilio_start_bot_def twilio_start_bot_unparsed twilio_start_bot_rejects
        not_str_def)

subsection \<open>The room service answers without a room\<close>

text \<open>
  C2: For every provisioning sequence in which the room service returns no room object (a
  missing/empty room), the sequence fails before any token-service call is attempted.

  Both the provisioner, for every call identifier, and the handler, for every form, end in
  an exception, and their events hold no token call.
\<close>

theorem no_room_no_token_call:
  assumes "create_room sv room_params = Returns None"
  shows "(\<exists>e. fst (create_daily_room sv callId) = Inl e)
         \<and> token_calls (snd (create_daily_room sv callId)) = []
         \<and> (\<exists>e. fst (post_twilio_start_bot sv form) = Inl e)
         \<and> token_calls (snd (post_twilio_start_bot sv form)) = []"
proof -
  have prov: "create_daily_room sv c =
      (Inl (AttributeError (squoted ''NoneType'' @ '' object has no attribute '' @ squoted ''url'')),
       [Printed ''Creating new room...'', RoomCall room_params])" for c
    using assms by (rule create_daily_room_no_room)
  have "(\<exists>e. fst (post_twilio_start_bot sv form) = Inl e)
      \<and> token_calls (snd (post_twilio_start_bot sv form)) = []"
    by (simp add: post_twilio_start_bot_def twilio_start_bot_def Let_def prov split: reply.splits)
  with prov [of callId] show ?thesis by simp
qed

theorem no_room_no_token_call_witness:
  "create_room services_no_room room_params = Returns None
   \<and> (\<exists>e. fst (create_daily_room services_no_room (Some ''CA123'')) = Inl e)
   \<and> token_calls (snd (create_daily_room services_no_room (Some ''CA123''))) = []
   \<and> (\<exists>e. fst (post_twilio_start_bot services_no_room
              (Returns [''CallSid'' \<mapsto> ''CA123''])) = Inl e)
   \<and> token_calls (snd (post_twilio_start_bot services_no_room
        (Returns [''CallSid'' \<mapsto> ''CA123'']))) = []"
proof -
  have none: "create_room services_no_room room_params = Returns None"
    by (simp add: fixed_services_def)
  show ?thesis
    using none
      no_room_no_token_call [OF none, of "Some ''CA123''" "Returns [''CallSid'' \<mapsto> ''CA123'']"]
    by blast
qed

text \<open>
  C9: In create_daily_room, the 'room is missing' branch of the validation check 'if not
  room or not token' is unreachable: if the room service returned a missing/None room, the
  function has already failed earlier (when dereferencing the room's url to log it and to
  request the token) with an uncontrolled exception rather than the controlled 500
  ProvisioningError.

  With no room the run ends in the \<open>AttributeError\<close>, right after the room call. And
  whenever the run ends in the \<open>HTTPException\<close> of the check, the room service had
  answered with a room: it is the token that was \<^verbatim>\<open>None\<close> or empty.
\<close>

theorem missing_room_check_unreachable:
  "(create_room sv room_params = Returns None \<longrightarrow>
      create_daily_room sv callId =
        (Inl (AttributeError
           (squoted ''NoneType'' @ '' object has no attribute '' @ squoted ''url'')),
         [Printed ''Creating new room...'', RoomCall room_params]))
   \<and> (fst (create_daily_room sv callId) =
          Inl (HTTPException 500 ''Failed to get room or token'') \<longrightarrow>
        (\<exists>r token. create_room sv room_params = Returns (Some r)
           \<and> get_token sv (url r) MAX_SESSION_TIME = Returns token \<and> not_str token))"
  using create_daily_room_no_room create_daily_room_controlled by blast

text \<open>A run without a room, and a run with a room and an empty token.\<close>

theorem missing_room_check_unreachable_witness:
  "create_room services_no_room room_params = Returns None
   \<and> create_daily_room services_no_room (Some ''CA123'') =
       (Inl (AttributeError
          (squoted ''NoneType'' @ '' object has no attribute '' @ squoted ''url'')),
        [Printed ''Creating new room...'', RoomCall room_params])
   \<and> fst (create_daily_room services_no_token (Some ''CA123'')) =
       Inl (HTTPException 500 ''Failed to get room or token'')
   \<and> (\<exists>r token. create_room services_no_token room_params = Returns (Some r)
        \<and> get_token services_no_token (url r) MAX_SESSION_TIME = Returns token \<and> not_str token)"
proof -
  have none: "create_room services_no_room room_params = Returns None"
    by (simp add: fixed_services_def)
  have controlled: "fst (create_daily_room services_no_token (Some ''CA123'')) =
      Inl (HTTPException 500 ''Failed to get room or token'')"
    by (simp add: create_daily_room_def fixed_services_def Let_def not_str_def)
  show ?thesis
    using none controlled
      missing_room_check_unreachable [of services_no_room "Some ''CA123''"]
      missing_room_check_unreachable [of services_no_token "Some ''CA123''"]
    by blast
qed

text \<open>
  C3: For every provisioning sequence in which the token service returns an empty token
  (and likewise if the room is missing), the sequence fails with a 500-equivalent
  ProvisioningError before any worker process is launched; the validation that both room
  and token are non-empty happens strictly before the launch step.

  The code at a missing room: the provisioner ends in the \<open>AttributeError\<close> of reading
  \<^verbatim>\<open>room.url\<close>, raised before the check is reached, and not in the \<open>HTTPException\<close>
  with status 500 that the check raises. Nothing is launched. (For the empty token see
  \<open>falsy_token_fails_before_launch\<close>.)
\<close>

theorem missing_room_is_not_a_controlled_error:
  "create_daily_room services_no_room (Some ''CA123'') =
     (Inl (AttributeError (squoted ''NoneType'' @ '' object has no attribute '' @ squoted ''url'')),
      [Printed ''Creating new room...'', RoomCall room_params])
   \<and> fst (create_daily_room services_no_room (Some ''CA123'')) \<noteq>
       Inl (HTTPException 500 ''Failed to get room or token'')
   \<and> launches (snd (create_daily_room services_no_room (Some ''CA123''))) = []"
proof -
  have "create_room services_no_room room_params = Returns None"
    by (simp add: fixed_services_def)
  then have "create_daily_room services_no_room (Some ''CA123'') =
     (Inl (AttributeError (squoted ''NoneType'' @ '' object has no attribute '' @ squoted ''url'')),
      [Printed ''Creating new room...'', RoomCall room_params])"
    by (rule create_daily_room_no_room)
  then show ?thesis by simp
qed

subsection \<open>Successful provisioning\<close>

text \<open>
  C4: For every successful provisioning sequence, exactly one room-creation call and
  exactly one token call are made, and the expiry parameter passed to the token service
  equals 300 seconds regardless of the request's input.

  For every call identifier and all collaborators: when the provisioner returns a room, the
  room calls of the run are the one request \<open>room_params\<close>, and its token calls are the one
  call with the url of that room and 300. For every form and all collaborators: when the
  route returns a response, the run of the request holds one room call and one token call,
  with 300.
\<close>

theorem one_room_call_one_token_call:
  "(fst (create_daily_room sv callId) = Inr room \<longrightarrow>
      room_calls (snd (create_daily_room sv callId)) = [room_params]
      \<and> token_calls (snd (create_daily_room sv callId)) = [(url room, 300)])
   \<and> (fst (post_twilio_start_bot sv form) = Inr r \<longrightarrow>
        room_calls (snd (post_twilio_start_bot sv form)) = [room_params]
        \<and> (\<exists>u. token_calls (snd (post_twilio_start_bot sv form)) = [(u, 300)]))"
proof (intro conjI impI)
  assume ok: "fst (create_daily_room sv callId) = Inr room"
  then obtain tr where run: "create_daily_room sv callId = (Inr room, tr)"
    by (cases "create_daily_room sv callId") simp
  from create_daily_room_success [OF run]
  show "room_calls (snd (create_daily_room sv callId)) = [room_params]"
    and "token_calls (snd (create_daily_room sv callId)) = [(url room, 300)]"
    by (auto simp: run MAX_SESSION_TIME_300)
next
  assume "fst (post_twilio_start_bot sv form) = Inr r"
  from post_twilio_start_bot_success [OF this] obtain c room' tr where
    run: "create_daily_room sv (Some c) = (Inr room', tr)"
    and events: "snd (post_twilio_start_bot sv form) =
        [Printed ''POST /twilio_start_bot'', Printed (''CallId: '' @ c)] @ tr
        @ [Printed ''Put Twilio on hold...'']"
    by blast
  from create_daily_room_success [OF run]
  show "room_calls (snd (post_twilio_start_bot sv form)) = [room_params]"
    and "\<exists>u. token_calls (snd (post_twilio_start_bot sv form)) = [(u, 300)]"
    by (auto simp: events MAX_SESSION_TIME_300)
qed

text \<open>The first end-to-end scenario of the specification.\<close>

theorem one_room_call_one_token_call_witness:
  "fst (create_daily_room services_ok (Some ''CA123'')) = Inr room_abc
   \<and> room_calls (snd (create_daily_room services_ok (Some ''CA123''))) = [room_params]
   \<and> token_calls (snd (create_daily_room services_ok (Some ''CA123''))) =
       [(''https://x.daily.co/abc'', 300)]
   \<and> fst (post_twilio_start_bot services_ok (Returns [''CallSid'' \<mapsto> ''CA123''])) =
       Inr (PlainTextResponse 200 (str_response (play VoiceResponse HOLD_MUSIC_URL 10)))
   \<and> room_calls (snd (post_twilio_start_bot services_ok
        (Returns [''CallSid'' \<mapsto> ''CA123'']))) = [room_params]
   \<and> (\<exists>u. token_calls (snd (post_twilio_start_bot services_ok
        (Returns [''CallSid'' \<mapsto> ''CA123'']))) = [(u, 300)])"
proof -
  have ok: "fst (create_daily_room services_ok (Some ''CA123'')) = Inr room_abc"
    by (simp add: create_daily_room_ok)
  show ?thesis
    using ok post_twilio_start_bot_served
      one_room_call_one_token_call [of services_ok "Some ''CA123''" room_abc
        "Returns [''CallSid'' \<mapsto> ''CA123'']"
        "PlainTextResponse 200 (str_response (play VoiceResponse HOLD_MUSIC_URL 10))"]
    by (simp add: room_abc_def)
qed




subsection \<open>The response\<close>

text \<open>
  C6: For every request whose provisioning sequence succeeds, the handler returns a 200
  plain-text response whose body is a voice-response XML document containing exactly one
  <Play> element with loop attribute "10" and body equal to the fixed hold-music URL
  http://com.twilio.sounds.music.s3.amazonaws.com/MARKOVICHAMP-Borghestral.mp3.

  The form holds a call identifier that is not empty and the provisioner returns a room
  for it. The route then answers with a plain-text response of status 200 whose content
  is the text of the document with one \<^verbatim>\<open>Play\<close> element; the second part gives that
  text, character by character.
\<close>

theorem success_plays_hold_music:
  assumes "data ''CallSid'' = Some c" and "c \<noteq> []"
    and "fst (create_daily_room sv (Some c)) = Inr room"
  shows "fst (post_twilio_start_bot sv (Returns data)) =
           Inr (PlainTextResponse 200
             (str_response
               (TwiML ''Response'' [] []
                 [TwiML ''Play'' [(''loop'', ''10'')]
                    ''http://com.twilio.sounds.music.s3.amazonaws.com/MARKOVICHAMP-Borghestral.mp3''
                    []])))
         \<and> str_response
               (TwiML ''Response'' [] []
                 [TwiML ''Play'' [(''loop'', ''10'')]
                    ''http://com.twilio.sounds.music.s3.amazonaws.com/MARKOVICHAMP-Borghestral.mp3''
                    []]) =
             ''<?xml version='' @ dquoted ''1.0'' @ '' encoding='' @ dquoted ''UTF-8'' @ ''?>''
             @ ''<Response><Play loop='' @ dquoted ''10'' @ ''>''
             @ ''http://com.twilio.sounds.music.s3.amazonaws.com/MARKOVICHAMP-Borghestral.mp3''
             @ ''</Play></Response>''"
proof -
  obtain tr where "create_daily_room sv (Some c) = (Inr room, tr)"
    using assms(3) by (cases "create_daily_room sv (Some c)") simp
  then have "fst (post_twilio_start_bot sv (Returns data)) =
      Inr (PlainTextResponse 200 (str_response (play VoiceResponse HOLD_MUSIC_URL 10)))"
    using assms(1,2) by (simp add: post_twilio_start_bot_ok)
  then show ?thesis
    using hold_response by (simp add: hold_tree)
qed

theorem success_plays_hold_music_witness:
  "fst (create_daily_room services_ok (Some ''CA123'')) = Inr room_abc
   \<and> fst (post_twilio_start_bot services_ok (Returns [''CallSid'' \<mapsto> ''CA123''])) =
       Inr (PlainTextResponse 200
         (''<?xml version='' @ dquoted ''1.0'' @ '' encoding='' @ dquoted ''UTF-8'' @ ''?>''
          @ ''<Response><Play loop='' @ dquoted ''10'' @ ''>''
          @ ''http://com.twilio.sounds.music.s3.amazonaws.com/MARKOVICHAMP-Borghestral.mp3''
          @ ''</Play></Response>''))"
proof -
  have sid: "[''CallSid'' \<mapsto> ''CA123''] ''CallSid'' = Some ''CA123''" by simp
  have nonempty: "''CA123'' \<noteq> []" by simp
  have ok: "fst (create_daily_room services_ok (Some ''CA123'')) = Inr room_abc"
    by (simp add: create_daily_room_ok)
  from success_plays_hold_music
      [where data = "[''CallSid'' \<mapsto> ''CA123'']" and c = "''CA123''", OF sid nonempty ok]
  show ?thesis using ok by simp
qed

text \<open>
  C10: For every successful request, the response body is one fixed constant string that
  is independent of the CallSid, the provisioned room url, the bridge address, and the
  access token: in particular, neither the token nor the room address ever appears in the
  response returned to the telephony provider (two successful runs with different
  CallSid/room/token values produce identical response bodies).

  Two successful runs, with any collaborators and any forms, give the same response, and
  it is the constant text, in which no value of the run occurs.
\<close>

theorem response_independent_of_call:
  assumes "fst (post_twilio_start_bot sv form) = Inr r"
    and "fst (post_twilio_start_bot sv' form') = Inr r'"
  shows "r = r'
         \<and> r = PlainTextResponse 200
             (''<?xml version='' @ dquoted ''1.0'' @ '' encoding='' @ dquoted ''UTF-8'' @ ''?>''
              @ ''<Response><Play loop='' @ dquoted ''10'' @ ''>''
              @ ''http://com.twilio.sounds.music.s3.amazonaws.com/MARKOVICHAMP-Borghestral.mp3''
              @ ''</Play></Response>'')"
  using post_twilio_start_bot_response [OF assms(1)] post_twilio_start_bot_response [OF assms(2)]
    hold_response by simp

text \<open>Two calls with different identifiers, rooms and tokens.\<close>

theorem response_independent_of_call_witness:
  "fst (post_twilio_start_bot services_ok (Returns [''CallSid'' \<mapsto> ''CA123''])) =
     Inr (PlainTextResponse 200 (str_response (play VoiceResponse HOLD_MUSIC_URL 10)))
   \<and> fst (post_twilio_start_bot services_other (Returns [''CallSid'' \<mapsto> ''CA999''])) =
     Inr (PlainTextResponse 200 (str_response (play VoiceResponse HOLD_MUSIC_URL 10)))
   \<and> PlainTextResponse 200 (str_response (play VoiceResponse HOLD_MUSIC_URL 10)) =
       PlainTextResponse 200
         (''<?xml version='' @ dquoted ''1.0'' @ '' encoding='' @ dquoted ''UTF-8'' @ ''?>''
          @ ''<Response><Play loop='' @ dquoted ''10'' @ ''>''
          @ ''http://com.twilio.sounds.music.s3.amazonaws.com/MARKOVICHAMP-Borghestral.mp3''
          @ ''</Play></Response>'')"
proof -
  have one: "fst (post_twilio_start_bot services_ok (Returns [''CallSid'' \<mapsto> ''CA123''])) =
      Inr (PlainTextResponse 200 (str_response (play VoiceResponse HOLD_MUSIC_URL 10)))"
    by (simp add: post_twilio_start_bot_def twilio_start_bot_provisions create_daily_room_fixed)
  have two: "fst (post_twilio_start_bot services_other (Returns [''CallSid'' \<mapsto> ''CA999''])) =
      Inr (PlainTextResponse 200 (str_response (play VoiceResponse HOLD_MUSIC_URL 10)))"
    by (simp add: post_twilio_start_bot_def twilio_start_bot_provisions create_daily_room_fixed)
  show ?thesis
    using one two response_independent_of_call [OF one two] by simp
qed

end
